theory Spec2Isabelle
  imports Complex_Main
begin

section \<open>Values, errors and dictionaries\<close>

text \<open>
  The Python values that flow through the three source files. A model class and a
  registry are objects with identity: they live in a store and a value refers to them by
  address (\<open>PCls\<close>, \<open>PReg\<close>). A float is \<open>nan\<close>, an infinity or a finite number.
\<close>

datatype pyfloat = NaN | PosInf | NegInf | Finite rat

datatype pyval =
    PNone
  | PBool bool
  | PInt int
  | PFloat pyfloat
  | PStr string
  | PType string
  | PList "pyval list"
  | PCls nat
  | PReg nat
  | PInst nat "(string \<times> pyval) list"

text \<open>
  Every \<open>raise\<close> of the source is a value of this type. \<open>ImproperlyConfigured\<close> keeps its
  \<open>detail\<close> and the exception it was raised \<open>from\<close>; \<open>OtherException\<close> stands for an
  \<open>Exception\<close> raised by a collaborator outside the three files (class name and message).
\<close>

datatype error =
    AssertionError string
  | ValueError string
  | KeyError string
  | AttributeError
  | TypeError
  | OtherException string string
  | ImproperlyConfigured string error

text \<open>Python's truth value of an object, as \<open>if x:\<close> tests it.\<close>

fun truthy :: "pyval \<Rightarrow> bool" where
  "truthy PNone = False"
| "truthy (PBool b) = b"
| "truthy (PInt i) = (i \<noteq> 0)"
| "truthy (PFloat x) = (x \<noteq> Finite 0)"
| "truthy (PStr s) = (s \<noteq> [])"
| "truthy (PList xs) = (xs \<noteq> [])"
| "truthy (PType _) = True"
| "truthy (PCls _) = True"
| "truthy (PReg _) = True"
| "truthy (PInst _ _) = True"

text \<open>
  Python's \<open>==\<close> on the builtin values. Numbers are compared by value, a \<open>bool\<close> being
  the \<open>int\<close> 0 or 1, so \<open>1 == True\<close> and \<open>1 == 1.0\<close>; \<open>nan\<close> is equal to nothing, itself
  included; \<open>None\<close>, a string, a type, a class or a registry is equal to itself only.
  Lists and instances are compared by methods of their own; here they are equal when
  they are the same value.
\<close>

fun number :: "pyval \<Rightarrow> rat option" where
  "number (PBool b) = Some (if b then 1 else 0)"
| "number (PInt i) = Some (of_int i)"
| "number (PFloat (Finite q)) = Some q"
| "number _ = None"

definition py_eq :: "pyval \<Rightarrow> pyval \<Rightarrow> bool" where
  "py_eq x y =
     (case (number x, number y) of
        (Some a, Some b) \<Rightarrow> a = b
      | (None, None) \<Rightarrow> x \<noteq> PFloat NaN \<and> x = y
      | _ \<Rightarrow> False)"

text \<open>
  \<open>str.lower()\<close> on ASCII text: the letters \<open>A\<close> to \<open>Z\<close> are mapped to \<open>a\<close> to \<open>z\<close>;
  every other character is kept. A name with letters outside ASCII, which \<open>str.lower()\<close>
  would lower as well, is outside what this function describes.
\<close>

definition lower_char :: "char \<Rightarrow> char" where
  "lower_char c =
     (case map_of (zip ''ABCDEFGHIJKLMNOPQRSTUVWXYZ'' ''abcdefghijklmnopqrstuvwxyz'') c of
        Some l \<Rightarrow> l
      | None \<Rightarrow> c)"

definition lower :: "string \<Rightarrow> string" where
  "lower s = map lower_char s"

text \<open>
  A \<open>dict\<close> with string keys is an association list in insertion order with no key
  twice. \<open>d[k] = v\<close> is \<open>dict_set\<close>: an existing key keeps its place, a new key goes to
  the end. \<open>k in d\<close> is membership in \<open>dict_keys d\<close>.
\<close>

type_synonym 'v pydict = "(string \<times> 'v) list"

definition dict_keys :: "'v pydict \<Rightarrow> string set" where
  "dict_keys d = fst ` set d"

fun dict_set :: "'v pydict \<Rightarrow> string \<Rightarrow> 'v \<Rightarrow> 'v pydict" where
  "dict_set [] k v = [(k, v)]"
| "dict_set ((k', v') # d) k v =
     (if k' = k then (k, v) # d else (k', v') # dict_set d k v)"

text \<open>\<open>del d[k]\<close> for a key that may be absent.\<close>

fun dict_del :: "'v pydict \<Rightarrow> string \<Rightarrow> 'v pydict" where
  "dict_del [] k = []"
| "dict_del ((k', v') # d) k =
     (if k' = k then dict_del d k else (k', v') # dict_del d k)"

text \<open>\<open>d.get(k, default)\<close>\<close>

definition dict_get :: "'v pydict \<Rightarrow> string \<Rightarrow> 'v \<Rightarrow> 'v" where
  "dict_get d k dflt = (case map_of d k of None \<Rightarrow> dflt | Some v \<Rightarrow> v)"

text \<open>\<open>d.pop(k, default)\<close>: the value, and the dictionary without the key.\<close>

definition dict_pop :: "'v pydict \<Rightarrow> string \<Rightarrow> 'v \<Rightarrow> 'v \<times> 'v pydict" where
  "dict_pop d k dflt = (dict_get d k dflt, dict_del d k)"

text \<open>\<open>{**a, **b}\<close>\<close>

fun dict_merge :: "'v pydict \<Rightarrow> 'v pydict \<Rightarrow> 'v pydict" where
  "dict_merge a [] = a"
| "dict_merge a ((k, v) # b) = dict_merge (dict_set a k v) b"

section \<open>Many-to-many field construction (\<open>many_to_many.py\<close>)\<close>

text \<open>
  Modelled from the spec: \<open>CASCADE\<close> and \<open>RESTRICT\<close> of \<open>edgy.core.db.constants\<close> are
  not among the source files; the spec names the two actions by these words.
\<close>

definition CASCADE :: string where
  "CASCADE = ''CASCADE''"

definition RESTRICT :: string where
  "RESTRICT = ''RESTRICT''"

text \<open>
  \<open>ManyToManyField.validate(cls, **kwargs)\<close>. The call \<open>cls.validate(**kwargs)\<close> hands the
  method a dictionary of its own, so the assignment to \<open>kwargs["related_name"]\<close> in its
  last line changes that local dictionary only. \<open>validate_locals\<close> is the method's local
  \<open>kwargs\<close> when it ends; \<open>validate\<close> is what the caller gets: \<open>None\<close>, or the assertion.
\<close>

definition validate_locals :: "pyval pydict \<Rightarrow> error + pyval pydict" where
  "validate_locals kwargs =
     (let related_name = dict_get kwargs ''related_name'' PNone in
      if truthy related_name then
        (case related_name of
           PStr s \<Rightarrow> Inr (dict_set kwargs ''related_name'' (PStr (lower s)))
         | _ \<Rightarrow> Inl (AssertionError ''related_name must be a string.''))
      else Inr (dict_set kwargs ''related_name'' PNone))"

definition validate :: "pyval pydict \<Rightarrow> error + unit" where
  "validate kwargs = (case validate_locals kwargs of Inl e \<Rightarrow> Inl e | Inr _ \<Rightarrow> Inr ())"

text \<open>
  \<open>ForeignKeyFieldFactory.__new__(cls, **kwargs)\<close> for \<open>cls = ManyToManyField\<close>, whose
  \<open>_type\<close> is \<open>sqlalchemy.ForeignKey\<close> and whose \<open>get_constraints()\<close> is the empty list.
  The options are popped in the source's order; \<open>dict(..., **kwargs)\<close> raises a
  \<open>TypeError\<close> when a remaining option repeats one of the keyword names. The result is
  the namespace the synthesized \<open>Field\<close> class is instantiated with: the constructor of
  \<open>BaseField\<close> is outside the source files, so the field object is represented by its
  constructor arguments.
\<close>

definition ForeignKeyFieldFactory_new :: "pyval pydict \<Rightarrow> error + pyval pydict" where
  "ForeignKeyFieldFactory_new kwargs0 =
     (case validate kwargs0 of
        Inl e \<Rightarrow> Inl e
      | Inr _ \<Rightarrow>
          (let (to, k1) = dict_pop kwargs0 ''to'' PNone;
               (null, k2) = dict_pop k1 ''null'' (PBool False);
               (on_update, k3) = dict_pop k2 ''on_update'' (PStr CASCADE);
               (on_delete, k4) = dict_pop k3 ''on_delete'' (PStr RESTRICT);
               (related_name, k5) = dict_pop k4 ''related_name'' PNone;
               (comment, k6) = dict_pop k5 ''comment'' PNone;
               (through, k7) = dict_pop k6 ''through'' PNone;
               (owner, k8) = dict_pop k7 ''owner'' PNone;
               (server_default, k9) = dict_pop k8 ''server_default'' PNone;
               (server_onupdate, k10) = dict_pop k9 ''server_onupdate'' PNone;
               (registry, k11) = dict_pop k10 ''registry'' PNone;
               (is_o2o, k12) = dict_pop k11 ''is_o2o'' (PBool False);
               (is_fk, kwargs) = dict_pop k12 ''is_fk'' (PBool False);
               is_m2m = PBool True;
               field_type = PType ''sqlalchemy.ForeignKey'';
               namespace =
                 [(''__type__'', field_type),
                  (''to'', to),
                  (''on_update'', on_update),
                  (''on_delete'', on_delete),
                  (''related_name'', related_name),
                  (''annotation'', field_type),
                  (''null'', null),
                  (''comment'', comment),
                  (''owner'', owner),
                  (''server_default'', server_default),
                  (''server_onupdate'', server_onupdate),
                  (''through'', through),
                  (''registry'', registry),
                  (''column_type'', field_type),
                  (''is_m2m'', is_m2m),
                  (''is_o2o'', is_o2o),
                  (''is_fk'', is_fk),
                  (''constraints'', PList [])]
           in if dict_keys kwargs \<inter> dict_keys namespace \<noteq> {} then Inl TypeError
              else Inr (namespace @ kwargs)))"

text \<open>
  \<open>ManyToManyField.__new__(cls, to, *, through=None, **kwargs)\<close>. The terminal is the
  list of warnings written; it is returned beside the outcome, since the warning is
  written before anything can fail. \<open>locals()\<close> without \<open>CLASS_DEFAULTS\<close> is \<open>to\<close>,
  \<open>through\<close> and \<open>null\<close>.
\<close>

definition null_warning :: string where
  "null_warning = ''Declaring `null` on a ManyToMany relationship has no effect.''"

definition ManyToManyField_new :: "pyval \<Rightarrow> pyval \<Rightarrow> pyval pydict \<Rightarrow> string list \<times> (error + pyval pydict)" where
  "ManyToManyField_new to through kwargs0 =
     (let null = dict_get kwargs0 ''null'' PNone;
          terminal = (if truthy null then [null_warning] else []);
          kwargs1 = dict_merge kwargs0 [(''to'', to), (''through'', through), (''null'', null)];
          kwargs2 = dict_set kwargs1 ''null'' (PBool True)
      in (terminal, ForeignKeyFieldFactory_new kwargs2))"

section \<open>Model classes, registries and the store\<close>

text \<open>
  \<open>to\<close> and \<open>through\<close> of a relationship field are either the name of a model, to be looked
  up in a registry, or a model class.
\<close>

datatype model_ref = Name string | Model nat

text \<open>
  The field definitions the source files build or inspect. \<open>IntegerField\<close> carries its
  \<open>primary_key\<close> option, \<open>ForeignKey\<close> its target, \<open>null\<close>, \<open>on_delete\<close> and
  \<open>related_name\<close>; \<open>ManyToManyFK\<close> is an instance of \<open>BaseManyToManyForeignKeyField\<close>;
  \<open>PlainField\<close> is any other kind of field, with the name of its type.
\<close>

datatype field =
    IntegerField bool
  | ForeignKey model_ref bool string string
  | ManyToManyFK
  | PlainField string

text \<open>
  \<open>MetaInfo\<close>, as far as the three files read or write it. A foreign key of
  \<open>foreign_key_fields\<close> is represented by its \<open>target\<close>, the related model class.
\<close>

record meta_info =
  tablename :: string
  registry :: "nat option"
  is_multi :: bool
  multi_related :: "string list"
  fields_mapping :: "field pydict"
  foreign_key_fields :: "nat pydict"

text \<open>
  A model class: \<open>__name__\<close>, \<open>pkname\<close>, \<open>fields\<close> (here \<open>cls_fields\<close>), \<open>meta\<close>, the other attributes that
  \<open>getattr\<close> finds on the class, and the names of the columns of its \<open>table\<close>.
\<close>

record model_cls =
  cls_name :: string
  pkname :: string
  cls_fields :: "field pydict"
  meta :: meta_info
  cls_attrs :: "pyval pydict"
  table_columns :: "string list"

text \<open>
  The store: the model classes by address, the \<open>models\<close> catalog of every registry by
  address, and the address the next model class created gets.
\<close>

record state =
  classes :: "nat \<Rightarrow> model_cls"
  registries :: "nat \<Rightarrow> nat pydict"
  next_cls :: nat

section \<open>The bridge model of a many-to-many field (\<open>many_to_many.py\<close>)\<close>

text \<open>The attributes of the field object that \<open>create_through_model\<close> reads and writes.\<close>

record m2m_field =
  f_to :: model_ref
  f_through :: "model_ref option"
  f_owner :: "nat option"
  f_related_name :: "string option"
  f_registry :: "nat option"

text \<open>\<open>x.__name__\<close>: a model class has a name, a string has no such attribute.\<close>

definition name_of :: "state \<Rightarrow> model_ref \<Rightarrow> error + string" where
  "name_of s x = (case x of Name _ \<Rightarrow> Inl AttributeError | Model a \<Rightarrow> Inr (cls_name (classes s a)))"

text \<open>
  Modelled from the spec: \<open>create_edgy_model\<close> of \<open>edgy.core.utils.models\<close> is not among the
  source files. The spec calls it the shared model-construction facility: the new class
  has the name, the field definitions and the meta it is given. Its table has one column
  per field, as \<open>build\<close> makes them, and its primary key is the first field declared
  with \<open>primary_key=True\<close>.
\<close>

definition create_edgy_model :: "string \<Rightarrow> field pydict \<Rightarrow> meta_info \<Rightarrow> model_cls" where
  "create_edgy_model name definitions metadata =
     \<lparr>cls_name = name,
      pkname = (case filter (\<lambda>(k, fd). fd = IntegerField True) definitions of
                  [] \<Rightarrow> ''id''
                | (k, _) # _ \<Rightarrow> k),
      cls_fields = definitions,
      meta = metadata\<lparr>fields_mapping := definitions\<rparr>,
      cls_attrs = [],
      table_columns = map fst definitions\<rparr>"

text \<open>\<open>add_model_to_register\<close>: \<open>self.registry.models[model.__name__] = model\<close>.\<close>

definition add_model_to_register :: "state \<Rightarrow> m2m_field \<Rightarrow> nat \<Rightarrow> error + state" where
  "add_model_to_register s self model =
     (case f_registry self of
        None \<Rightarrow> Inl AttributeError
      | Some r \<Rightarrow>
          Inr (s\<lparr>registries :=
                 (registries s)(r := dict_set (registries s r) (cls_name (classes s model)) model)\<rparr>))"

text \<open>
  \<open>create_through_model\<close>. The result is the value returned (\<open>None\<close> is Python's
  \<open>None\<close>), the field and the store after the call. When the call raises, the store it
  leaves behind is not kept. \<open>self.related_name\<close> is a string or \<open>None\<close>, and both
  \<open>None\<close> and the empty string are false in \<open>if self.related_name\<close>.
\<close>

definition through_truthy :: "model_ref option \<Rightarrow> bool" where
  "through_truthy t = (case t of None \<Rightarrow> False | Some (Name n) \<Rightarrow> n \<noteq> [] | Some (Model _) \<Rightarrow> True)"

definition resolve_through :: "state \<Rightarrow> m2m_field \<Rightarrow> error + nat" where
  "resolve_through s self =
     (case f_through self of
        Some (Model a) \<Rightarrow> Inr a
      | Some (Name n) \<Rightarrow>
          (case f_owner self of
             None \<Rightarrow> Inl AttributeError
           | Some ow \<Rightarrow>
               (case registry (meta (classes s ow)) of
                  None \<Rightarrow> Inl AttributeError
                | Some r \<Rightarrow>
                    (case map_of (registries s r) n of
                       None \<Rightarrow> Inl (KeyError n)
                     | Some a \<Rightarrow> Inr a)))
      | None \<Rightarrow> Inl AttributeError)"

definition create_through_model ::
    "state \<Rightarrow> m2m_field \<Rightarrow> error + (nat option \<times> m2m_field \<times> state)" where
  "create_through_model s self =
     (if through_truthy (f_through self) then
        (case resolve_through s self of
           Inl e \<Rightarrow> Inl e
         | Inr th \<Rightarrow>
             (case name_of s (f_to self) of
                Inl e \<Rightarrow> Inl e
              | Inr to_name \<Rightarrow>
                  (let self' = self\<lparr>f_through := Some (Model th)\<rparr>;
                       c = classes s th;
                       c' = c\<lparr>meta := (meta c)\<lparr>is_multi := True, multi_related := [lower to_name]\<rparr>\<rparr>
                   in Inr (Some th, self', s\<lparr>classes := (classes s)(th := c')\<rparr>))))
      else
        (case f_owner self of
           None \<Rightarrow> Inl AttributeError
         | Some ow \<Rightarrow>
             (case name_of s (f_to self) of
                Inl e \<Rightarrow> Inl e
              | Inr to_name \<Rightarrow>
                  (let owner_name = cls_name (classes s ow);
                       class_name = owner_name @ to_name;
                       table_name = lower (lower owner_name @ ''s_'' @ to_name @ ''s'');
                       new_meta =
                         \<lparr>tablename = table_name,
                          registry = f_registry self,
                          is_multi = True,
                          multi_related = [lower to_name],
                          fields_mapping = [],
                          foreign_key_fields = []\<rparr>;
                       related_name =
                         (case f_related_name self of None \<Rightarrow> [] | Some rn \<Rightarrow> rn);
                       owner_related_name =
                         (if related_name \<noteq> []
                          then related_name @ ''_'' @ lower class_name @ ''s_set''
                          else lower owner_name @ ''_'' @ lower class_name @ ''s_set'');
                       to_related_name =
                         (if related_name \<noteq> []
                          then related_name
                          else lower to_name @ ''_'' @ lower class_name @ ''s_set'');
                       fields0 = dict_set [] ''id'' (IntegerField True);
                       fields1 = dict_set fields0 (lower owner_name)
                                   (ForeignKey (Model ow) True CASCADE owner_related_name);
                       fields2 = dict_set fields1 (lower to_name)
                                   (ForeignKey (f_to self) True CASCADE to_related_name);
                       through_model = create_edgy_model class_name fields2 new_meta;
                       a = next_cls s;
                       s1 = s\<lparr>classes := (classes s)(a := through_model), next_cls := Suc a\<rparr>;
                       self' = self\<lparr>f_through := Some (Model a)\<rparr>
                   in (case add_model_to_register s1 self' a of
                         Inl e \<Rightarrow> Inl e
                       | Inr s2 \<Rightarrow> Inr (None, self', s2))))))"

section \<open>Model instances (\<open>base.py\<close>)\<close>

text \<open>An instance: its class (\<open>__class__\<close>) and its attribute dictionary (\<open>__dict__\<close>).\<close>

record inst =
  inst_class :: nat
  inst_dict :: "pyval pydict"

text \<open>
  \<open>getattr(self, key)\<close> looks in the instance's dictionary, then on its class, and raises
  \<open>AttributeError\<close> otherwise; \<open>getattr(self, key, default)\<close> and \<open>hasattr(self, key)\<close>
  follow from it.
\<close>

definition getattr :: "state \<Rightarrow> inst \<Rightarrow> string \<Rightarrow> error + pyval" where
  "getattr s self key =
     (case map_of (inst_dict self) key of
        Some v \<Rightarrow> Inr v
      | None \<Rightarrow>
          (case map_of (cls_attrs (classes s (inst_class self))) key of
             Some v \<Rightarrow> Inr v
           | None \<Rightarrow> Inl AttributeError))"

definition getattr_default :: "state \<Rightarrow> inst \<Rightarrow> string \<Rightarrow> pyval \<Rightarrow> pyval" where
  "getattr_default s self key dflt = (case getattr s self key of Inl _ \<Rightarrow> dflt | Inr v \<Rightarrow> v)"

definition hasattr :: "state \<Rightarrow> inst \<Rightarrow> string \<Rightarrow> bool" where
  "hasattr s self key = (case getattr s self key of Inl _ \<Rightarrow> False | Inr _ \<Rightarrow> True)"

text \<open>
  Modelled from the spec: \<open>edgy_setattr\<close> of \<open>edgy.core.utils.functional\<close> is not among the
  source files. The spec describes it as writing the value into the instance's backing
  attribute storage under the key; \<open>__setattr__\<close> itself ends with a call of it, so it
  does not go through \<open>__setattr__\<close>.
\<close>

definition edgy_setattr :: "inst \<Rightarrow> string \<Rightarrow> pyval \<Rightarrow> inst" where
  "edgy_setattr self key v = self\<lparr>inst_dict := dict_set (inst_dict self) key v\<rparr>"

text \<open>
  The loop of \<open>setup_model_fields_from_kwargs\<close> over \<open>kwargs.items()\<close>. The first argument
  is what is left of the iteration; \<open>kwargs\<close> is the dictionary the body writes to. The
  body writes under the key it is visiting only, so the values the iteration reads are
  those the dictionary had when the loop began.
\<close>

fun setup_loop ::
    "state \<Rightarrow> pyval pydict \<Rightarrow> inst \<Rightarrow> pyval pydict \<Rightarrow> error + (inst \<times> pyval pydict)" where
  "setup_loop s [] self kwargs = Inr (self, kwargs)"
| "setup_loop s ((key, v) # items) self kwargs =
     (let cls = classes s (inst_class self) in
      if key \<notin> dict_keys (cls_fields cls) \<and> \<not> hasattr s self key then
        Inl (ValueError (''Invalid keyword '' @ key @ '' for class '' @ cls_name cls))
      else
        (let self' = edgy_setattr self key v in
         case getattr s self' key of
           Inl e \<Rightarrow> Inl e
         | Inr v' \<Rightarrow> setup_loop s items self' (dict_set kwargs key v')))"

text \<open>
  \<open>setup_model_fields_from_kwargs(self, kwargs)\<close>: the instance after the assignments and
  the dictionary returned. \<open>rename_pk\<close> is its first statement, \<open>known_kwargs\<close> the
  comprehension that keeps the keys of \<open>self.meta.fields_mapping\<close>.
\<close>

definition rename_pk :: "model_cls \<Rightarrow> pyval pydict \<Rightarrow> pyval pydict" where
  "rename_pk cls kwargs =
     (if ''pk'' \<in> dict_keys kwargs
      then (let (v, k) = dict_pop kwargs ''pk'' PNone in dict_set k (pkname cls) v)
      else kwargs)"

definition known_kwargs :: "model_cls \<Rightarrow> pyval pydict \<Rightarrow> pyval pydict" where
  "known_kwargs cls kwargs = filter (\<lambda>(k, v). k \<in> dict_keys (fields_mapping (meta cls))) kwargs"

definition setup_model_fields_from_kwargs ::
    "state \<Rightarrow> inst \<Rightarrow> pyval pydict \<Rightarrow> error + (inst \<times> pyval pydict)" where
  "setup_model_fields_from_kwargs s self kwargs0 =
     (let cls = classes s (inst_class self);
          kwargs1 = rename_pk cls kwargs0;
          kwargs2 = known_kwargs cls kwargs1
      in setup_loop s kwargs2 self kwargs2)"

text \<open>
  \<open>EdgyBaseModel.__init__(self, **kwargs)\<close>. The constructor of the validation base
  (\<open>super().__init__(**kwargs)\<close>) is outside the source files: \<open>base\<close> gives, for a class
  and the keyword arguments, the attributes it leaves on the instance, or its error.
  The model is configured with \<open>extra="allow"\<close>, so a base that accepts the keywords
  leaves every one of them on the instance: the facts below about a construction take a
  base with \<open>dict_keys kwargs \<subseteq> dict_keys d0\<close> for the attributes \<open>d0\<close> it leaves.
  The last line replaces \<open>__dict__\<close> by the values.
\<close>

definition EdgyBaseModel_init ::
    "(nat \<Rightarrow> pyval pydict \<Rightarrow> error + pyval pydict) \<Rightarrow> state \<Rightarrow> nat \<Rightarrow> pyval pydict \<Rightarrow> error + inst" where
  "EdgyBaseModel_init base s c kwargs =
     (case base c kwargs of
        Inl e \<Rightarrow> Inl e
      | Inr d0 \<Rightarrow>
          (case setup_model_fields_from_kwargs s \<lparr>inst_class = c, inst_dict = d0\<rparr> kwargs of
             Inl e \<Rightarrow> Inl e
           | Inr (self, values) \<Rightarrow> Inr (self\<lparr>inst_dict := values\<rparr>)))"

text \<open>The \<open>pk\<close> property of \<open>EdgyBaseModel\<close>.\<close>

definition pk :: "state \<Rightarrow> inst \<Rightarrow> error + pyval" where
  "pk s self = getattr s self (pkname (classes s (inst_class self)))"

definition pk_setter :: "state \<Rightarrow> inst \<Rightarrow> pyval \<Rightarrow> inst" where
  "pk_setter s self v = edgy_setattr self (pkname (classes s (inst_class self))) v"

text \<open>
  \<open>EdgyBaseModel.__setattr__(self, key, value)\<close>. Two collaborators are outside the source
  files and are parameters: \<open>expand_relationship\<close>, the hook of a field, and
  \<open>many_to_many_relation\<close>, the name that the settings' template gives for a key.
\<close>

definition setattr ::
    "(field \<Rightarrow> pyval \<Rightarrow> pyval) \<Rightarrow> (string \<Rightarrow> string) \<Rightarrow> state \<Rightarrow> inst \<Rightarrow> string \<Rightarrow> pyval
      \<Rightarrow> error + inst" where
  "setattr expand_relationship many_to_many_relation s self key v =
     (case map_of (cls_fields (classes s (inst_class self))) key of
        Some fd \<Rightarrow>
          (if fd = ManyToManyFK then
             (case getattr s self (many_to_many_relation key) of
                Inl e \<Rightarrow> Inl e
              | Inr v' \<Rightarrow> Inr (edgy_setattr self key v'))
           else Inr (edgy_setattr self key (expand_relationship fd v)))
      | None \<Rightarrow> Inr (edgy_setattr self key v))"

text \<open>
  \<open>EdgyBaseModel.__eq__(self, other)\<close>. The values of a field are compared with
  \<open>!=\<close>, which is decided by the values themselves: \<open>equals\<close> is Python's \<open>==\<close> on them,
  and \<open>x != y\<close> is its negation.
\<close>

definition eq :: "(pyval \<Rightarrow> pyval \<Rightarrow> bool) \<Rightarrow> state \<Rightarrow> inst \<Rightarrow> inst \<Rightarrow> bool" where
  "eq equals s self other =
     (if inst_class self \<noteq> inst_class other then False
      else list_all
             (\<lambda>key. equals (getattr_default s self key PNone) (getattr_default s other key PNone))
             (map fst (cls_fields (classes s (inst_class self)))))"

text \<open>
  The \<open>pk\<close> property of \<open>EdgyBaseReflectModel\<close>: the getter is
  \<open>getattr(self, self.pkname, None)\<close>, the setter is the builtin
  \<open>setattr(self, self.pkname, value)\<close>, which calls \<open>__setattr__\<close>.
\<close>

definition reflect_pk :: "state \<Rightarrow> inst \<Rightarrow> pyval" where
  "reflect_pk s self = getattr_default s self (pkname (classes s (inst_class self))) PNone"

definition reflect_pk_setter ::
    "(field \<Rightarrow> pyval \<Rightarrow> pyval) \<Rightarrow> (string \<Rightarrow> string) \<Rightarrow> state \<Rightarrow> inst \<Rightarrow> pyval
      \<Rightarrow> error + inst" where
  "reflect_pk_setter expand_relationship many_to_many_relation s self v =
     setattr expand_relationship many_to_many_relation s self
       (pkname (classes s (inst_class self))) v"

text \<open>
  \<open>EdgyBaseReflectModel.reflect(cls, tablename, metadata)\<close> and \<open>build\<close>. The call
  \<open>sqlalchemy.Table(tablename, metadata, autoload_with=engine)\<close> is the parameter
  \<open>autoload\<close>; it returns the table or the \<open>Exception\<close> that the introspection raises.
  The metadata and the engine are attributes of a registry and are represented by its
  address. Reading \<open>cls.meta.registry.sync_engine\<close> is part of the \<open>try\<close> block.
\<close>

definition reflect ::
    "(string \<Rightarrow> nat \<Rightarrow> nat \<Rightarrow> error + 't) \<Rightarrow> state \<Rightarrow> nat \<Rightarrow> string \<Rightarrow> nat \<Rightarrow> error + 't" where
  "reflect autoload s c table_name metadata =
     (case (case registry (meta (classes s c)) of
              None \<Rightarrow> Inl AttributeError
            | Some engine \<Rightarrow> autoload table_name metadata engine) of
        Inr t \<Rightarrow> Inr t
      | Inl e \<Rightarrow>
          Inl (ImproperlyConfigured (''Table with the name '' @ table_name @ '' does not exist.'') e))"

definition build :: "(string \<Rightarrow> nat \<Rightarrow> nat \<Rightarrow> error + 't) \<Rightarrow> state \<Rightarrow> nat \<Rightarrow> error + 't" where
  "build autoload s c =
     (case registry (meta (classes s c)) of
        None \<Rightarrow> Inl AttributeError
      | Some metadata \<Rightarrow> reflect autoload s c (tablename (meta (classes s c))) metadata)"

section \<open>Row materialization, related names (\<open>row.py\<close>)\<close>

text \<open>\<open>s.split("__")\<close>: the pieces between the occurrences of the separator, left to right.\<close>

fun split_dunder :: "string \<Rightarrow> string \<Rightarrow> string list" where
  "split_dunder cur [] = [cur]"
| "split_dunder cur [a] = [cur @ [a]]"
| "split_dunder cur (a # b # rest) =
     (if a = CHR ''_'' \<and> b = CHR ''_'' then cur # split_dunder [] rest
      else split_dunder (cur @ [a]) (b # rest))"

definition should_ignore_related_name :: "string \<Rightarrow> string list \<Rightarrow> bool" where
  "should_ignore_related_name related_name select_related =
     list_ex (\<lambda>related_field. related_name \<in> set (split_dunder [] related_field)) select_related"

text \<open>
  The inner loop of the second step of \<open>from_sqla_row\<close>, over \<open>cls.table.columns\<close>: the
  dictionary \<open>child_item\<close> for the foreign key \<open>related\<close>, whose target has the fields
  \<open>target_fields\<close>. \<open>row[related]\<close> raises when the row has no such column.
\<close>

fun child_item_loop ::
    "string list \<Rightarrow> string set \<Rightarrow> string \<Rightarrow> pyval pydict \<Rightarrow> pyval pydict \<Rightarrow> error + pyval pydict" where
  "child_item_loop [] target_fields related row child_item = Inr child_item"
| "child_item_loop (column # columns) target_fields related row child_item =
     (if column \<notin> target_fields then
        child_item_loop columns target_fields related row child_item
      else if related \<notin> dict_keys child_item then
        (case map_of row related of
           None \<Rightarrow> Inl (KeyError related)
         | Some v \<Rightarrow> child_item_loop columns target_fields related row (dict_set child_item column v))
      else child_item_loop columns target_fields related row child_item)"

text \<open>
  The second step of \<open>from_sqla_row\<close>: the loop over \<open>cls.meta.foreign_key_fields.items()\<close>
  that populates \<open>item\<close> with the related instances. \<open>base\<close> is the constructor of the
  validation base, as in \<open>EdgyBaseModel_init\<close>.
\<close>

fun populate_related ::
    "(nat \<Rightarrow> pyval pydict \<Rightarrow> error + pyval pydict) \<Rightarrow> state \<Rightarrow> nat \<Rightarrow> string list \<Rightarrow> pyval pydict
      \<Rightarrow> nat pydict \<Rightarrow> pyval pydict \<Rightarrow> error + pyval pydict" where
  "populate_related base s c select_related row [] item = Inr item"
| "populate_related base s c select_related row ((related, model_related) # fks) item =
     (if should_ignore_related_name related select_related then
        populate_related base s c select_related row fks item
      else
        (case child_item_loop (table_columns (classes s c))
                (dict_keys (cls_fields (classes s model_related))) related row [] of
           Inl e \<Rightarrow> Inl e
         | Inr child_item \<Rightarrow>
             (case EdgyBaseModel_init base s model_related child_item of
                Inl e \<Rightarrow> Inl e
              | Inr inst \<Rightarrow>
                  populate_related base s c select_related row fks
                    (dict_set item related (PInst (inst_class inst) (inst_dict inst))))))"

section \<open>The keywords that \<open>setup_model_fields_from_kwargs\<close> rejects\<close>

text \<open>The test of the loop's body: the key is no field and the instance has no such attribute.\<close>

definition invalid_keyword :: "state \<Rightarrow> inst \<Rightarrow> string \<Rightarrow> bool" where
  "invalid_keyword s self key =
     (key \<notin> dict_keys (cls_fields (classes s (inst_class self))) \<and> \<not> hasattr s self key)"

section \<open>An example store\<close>

text \<open>
  Declared models: \<open>Team\<close> and \<open>Member\<close>, related many to many, and \<open>Book\<close> with a
  foreign key \<open>author\<close> to \<open>Author\<close>; \<open>Profile\<close> is a reflected model whose primary key is
  its foreign key \<open>user\<close> to \<open>Author\<close>; \<open>Membership\<close> is a bridge between \<open>Team\<close> and
  \<open>Member\<close> written by hand. All are registered in the registry at address 0.
\<close>

definition declared :: "string \<Rightarrow> string \<Rightarrow> string \<Rightarrow> field pydict \<Rightarrow> nat pydict \<Rightarrow> model_cls" where
  "declared name table pkn fds fks =
     \<lparr>cls_name = name,
      pkname = pkn,
      cls_fields = fds,
      meta = \<lparr>tablename = table, registry = Some 0, is_multi = False, multi_related = [],
               fields_mapping = fds, foreign_key_fields = fks\<rparr>,
      cls_attrs = [],
      table_columns = map fst fds\<rparr>"

definition Team :: model_cls where
  "Team = declared ''Team'' ''teams'' ''id''
            [(''id'', IntegerField True), (''name'', PlainField ''CharField'')] []"

definition Member :: model_cls where
  "Member = declared ''Member'' ''members'' ''id''
              [(''id'', IntegerField True), (''name'', PlainField ''CharField'')] []"

definition Author :: model_cls where
  "Author = declared ''Author'' ''authors'' ''id''
              [(''id'', IntegerField True), (''name'', PlainField ''CharField'')] []"

definition Book :: model_cls where
  "Book = declared ''Book'' ''books'' ''id''
            [(''id'', IntegerField True), (''name'', PlainField ''CharField''),
             (''author'', ForeignKey (Model 2) False RESTRICT ''books'')]
            [(''author'', 2)]"

definition Profile :: model_cls where
  "Profile = declared ''Profile'' ''profiles'' ''user''
               [(''user'', ForeignKey (Model 2) False CASCADE ''profile'')] [(''user'', 2)]"

definition Membership :: model_cls where
  "Membership = declared ''Membership'' ''memberships'' ''id''
                  [(''id'', IntegerField True),
                   (''team'', ForeignKey (Model 0) True CASCADE ''memberships''),
                   (''member'', ForeignKey (Model 1) True CASCADE ''team_memberships'')]
                  [(''team'', 0), (''member'', 1)]"

text \<open>\<open>Reading\<close> is a model whose primary key \<open>id\<close> is a float.\<close>

definition Reading :: model_cls where
  "Reading = declared ''Reading'' ''readings'' ''id'' [(''id'', PlainField ''FloatField'')] []"

definition example_classes :: "nat \<Rightarrow> model_cls" where
  "example_classes a =
     (if a = 0 then Team else if a = 1 then Member else if a = 2 then Author
      else if a = 3 then Book else if a = 4 then Profile else if a = 5 then Membership
      else Reading)"

definition example_state :: state where
  "example_state =
     \<lparr>classes = example_classes,
      registries =
        (\<lambda>r. [(''Team'', 0), (''Member'', 1), (''Author'', 2), (''Book'', 3), (''Profile'', 4),
              (''Membership'', 5), (''Reading'', 6)]),
      next_cls = 7\<rparr>"

text \<open>
  The many-to-many field \<open>members\<close> of \<open>Team\<close>, to \<open>Member\<close>: declared without a bridge
  model, and declared with the bridge model \<open>Membership\<close> given by name.
\<close>

definition members_field :: m2m_field where
  "members_field =
     \<lparr>f_to = Model 1, f_through = None, f_owner = Some 0, f_related_name = None,
      f_registry = Some 0\<rparr>"

definition members_through_field :: m2m_field where
  "members_through_field =
     \<lparr>f_to = Model 1, f_through = Some (Name ''Membership''), f_owner = Some 0,
      f_related_name = None, f_registry = Some 0\<rparr>"

text \<open>
  A validation base that accepts every set of keyword arguments and, the model being
  configured with \<open>extra="allow"\<close>, leaves each of them on the instance.
\<close>

definition base_keeps :: "nat \<Rightarrow> pyval pydict \<Rightarrow> error + pyval pydict" where
  "base_keeps c kwargs = Inr kwargs"

text \<open>
  A relationship hook that turns a raw key assigned to a foreign key into an instance of
  the target holding that key, and leaves every other value as it is.
\<close>

definition expand_stub :: "field \<Rightarrow> pyval \<Rightarrow> pyval" where
  "expand_stub fd v =
     (case fd of
        ForeignKey (Model a) _ _ _ \<Rightarrow> (case v of PInst _ _ \<Rightarrow> v | _ \<Rightarrow> PInst a [(''pk'', v)])
      | _ \<Rightarrow> v)"

definition relation_name :: "string \<Rightarrow> string" where
  "relation_name key = key @ ''_relation''"

text \<open>An introspection that finds no table of the name it is asked for.\<close>

definition no_such_table :: "string \<Rightarrow> nat \<Rightarrow> nat \<Rightarrow> error + unit" where
  "no_such_table table_name metadata engine = Inl (OtherException ''NoSuchTableError'' table_name)"

section \<open>Facts about dictionaries and attributes\<close>

lemma map_of_dict_set: "map_of (dict_set d k v) = (map_of d)(k \<mapsto> v)"
  by (induction d k v rule: dict_set.induct) auto

lemma map_of_dict_del: "map_of (dict_del d k) = (map_of d)(k := None)"
  by (induction d k rule: dict_del.induct) auto

lemma keys_dict_set: "map fst (dict_set d k v) = (if k \<in> set (map fst d) then map fst d else map fst d @ [k])"
  by (induction d k v rule: dict_set.induct) auto

lemma keys_dict_del: "map fst (dict_del d k) = filter (\<lambda>k'. k' \<noteq> k) (map fst d)"
  by (induction d k rule: dict_del.induct) auto

lemma distinct_dict_set: "distinct (map fst d) \<Longrightarrow> distinct (map fst (dict_set d k v))"
  by (simp add: keys_dict_set)

lemma distinct_dict_del: "distinct (map fst d) \<Longrightarrow> distinct (map fst (dict_del d k))"
  by (simp add: keys_dict_del)

lemma distinct_rename_pk: "distinct (map fst kw) \<Longrightarrow> distinct (map fst (rename_pk cls kw))"
  by (simp add: rename_pk_def dict_pop_def distinct_dict_set distinct_dict_del)

lemma distinct_known_kwargs: "distinct (map fst kw) \<Longrightarrow> distinct (map fst (known_kwargs cls kw))"
  by (simp add: known_kwargs_def distinct_map_filter)

lemma getattr_edgy_setattr_same: "getattr s (edgy_setattr self k v) k = Inr v"
  by (simp add: getattr_def edgy_setattr_def map_of_dict_set)

lemma hasattr_edgy_setattr_other:
  "k' \<noteq> k \<Longrightarrow> hasattr s (edgy_setattr self k v) k' = hasattr s self k'"
  by (simp add: hasattr_def getattr_def edgy_setattr_def map_of_dict_set split: option.splits)

lemma inst_class_edgy_setattr: "inst_class (edgy_setattr self k v) = inst_class self"
  by (simp add: edgy_setattr_def)

lemma invalid_keyword_edgy_setattr:
  "k' \<noteq> k \<Longrightarrow> invalid_keyword s (edgy_setattr self k v) k' = invalid_keyword s self k'"
  by (simp add: invalid_keyword_def hasattr_edgy_setattr_other inst_class_edgy_setattr)

lemma invalid_keyword_edgy_setattr_mono:
  "invalid_keyword s (edgy_setattr self k v) k' \<Longrightarrow> invalid_keyword s self k'"
  by (cases "k' = k")
    (simp_all add: invalid_keyword_edgy_setattr, simp add: invalid_keyword_def hasattr_def
      getattr_edgy_setattr_same)

lemma dict_set_same: "map_of d k = Some v \<Longrightarrow> dict_set d k v = d"
  by (induction d k v rule: dict_set.induct) (auto split: if_splits)

lemma dict_keys_map_of: "k \<in> dict_keys d \<longleftrightarrow> map_of d k \<noteq> None"
  by (simp add: dict_keys_def map_of_eq_None_iff)

lemma map_of_known_kwargs:
  "map_of (known_kwargs cls d) k =
     (if k \<in> dict_keys (fields_mapping (meta cls)) then map_of d k else None)"
  by (induction d) (auto simp add: known_kwargs_def)

lemma map_of_rename_pk:
  "map_of (rename_pk cls d) =
     (if ''pk'' \<in> dict_keys d
      then ((map_of d)(''pk'' := None))(pkname cls \<mapsto> dict_get d ''pk'' PNone)
      else map_of d)"
  by (simp add: rename_pk_def dict_pop_def map_of_dict_set map_of_dict_del)

text \<open>
  When no key of the iteration is rejected and the dictionary already holds the values
  of the iteration, the loop returns the dictionary as it is.
\<close>

lemma setup_loop_keeps:
  "\<forall>k \<in> set (map fst items). \<not> invalid_keyword s self k \<Longrightarrow>
   \<forall>(k, v) \<in> set items. map_of kw k = Some v \<Longrightarrow>
   \<exists>self'. setup_loop s items self kw = Inr (self', kw) \<and> inst_class self' = inst_class self"
proof (induction items arbitrary: self)
  case Nil
  then show ?case by simp
next
  case (Cons item items)
  obtain key v where item: "item = (key, v)" by (cases item)
  let ?self' = "edgy_setattr self key v"
  from Cons.prems item have ok: "\<not> invalid_keyword s self key" by simp
  from Cons.prems item have same: "dict_set kw key v = kw" by (simp add: dict_set_same)
  from Cons.prems have "\<forall>k \<in> set (map fst items). \<not> invalid_keyword s ?self' k"
    using invalid_keyword_edgy_setattr_mono by fastforce
  moreover from Cons.prems have "\<forall>(k, v) \<in> set items. map_of kw k = Some v" by simp
  ultimately obtain self'' where
    "setup_loop s items ?self' kw = Inr (self'', kw)" "inst_class self'' = inst_class ?self'"
    using Cons.IH by blast
  with ok item same show ?case
    by (auto simp add: invalid_keyword_def getattr_edgy_setattr_same inst_class_edgy_setattr Let_def)
qed

text \<open>
  A construction whose keywords the validation base has accepted and left on the
  instance, and whose \<open>pk\<close> keyword, if there is one, goes to a declared field: no
  keyword is rejected, and the instance holds the keywords that \<open>meta.fields_mapping\<close>
  knows, \<open>pk\<close> renamed.
\<close>

lemma init_result:
  assumes base: "base c kwargs = Inr d0" and dist: "distinct (map fst kwargs)"
    and kept: "dict_keys kwargs \<subseteq> dict_keys d0"
    and pkf: "''pk'' \<in> dict_keys kwargs \<longrightarrow>
                pkname (classes s c) \<in> dict_keys (cls_fields (classes s c))"
  shows "EdgyBaseModel_init base s c kwargs =
           Inr \<lparr>inst_class = c,
                inst_dict = known_kwargs (classes s c) (rename_pk (classes s c) kwargs)\<rparr>"
proof -
  let ?cls = "classes s c"
  let ?kw = "known_kwargs ?cls (rename_pk ?cls kwargs)"
  let ?self0 = "\<lparr>inst_class = c, inst_dict = d0\<rparr>"
  have dkw: "distinct (map fst ?kw)"
    using dist by (simp add: distinct_known_kwargs distinct_rename_pk)
  then have vals: "\<forall>(k, v) \<in> set ?kw. map_of ?kw k = Some v" by auto
  have ok: "\<not> invalid_keyword s ?self0 k" if k: "k \<in> set (map fst ?kw)" for k
  proof -
    from k have "map_of ?kw k \<noteq> None" by (simp add: map_of_eq_None_iff)
    then have r: "map_of (rename_pk ?cls kwargs) k \<noteq> None"
      by (simp add: map_of_known_kwargs split: if_splits)
    show ?thesis
    proof (cases "k \<in> dict_keys kwargs")
      case True
      with kept have "k \<in> dict_keys d0" by blast
      then have "map_of d0 k \<noteq> None" by (simp add: dict_keys_map_of)
      then show ?thesis
        by (auto simp add: invalid_keyword_def hasattr_def getattr_def)
    next
      case False
      with r have "''pk'' \<in> dict_keys kwargs \<and> k = pkname ?cls"
        by (auto simp add: map_of_rename_pk dict_keys_map_of split: if_splits)
      with pkf show ?thesis by (simp add: invalid_keyword_def)
    qed
  qed
  then have "\<forall>k \<in> set (map fst ?kw). \<not> invalid_keyword s ?self0 k" by blast
  from setup_loop_keeps[OF this vals] obtain self' where
    "setup_loop s ?kw ?self0 ?kw = Inr (self', ?kw)" "inst_class self' = c"
    by auto
  with base show ?thesis
    by (cases self') (simp add: EdgyBaseModel_init_def setup_model_fields_from_kwargs_def Let_def)
qed

lemma dict_get_del: "k \<noteq> k' \<Longrightarrow> dict_get (dict_del d k') k y = dict_get d k y"
  by (simp add: dict_get_def map_of_dict_del)

lemma dict_get_set_same: "dict_get (dict_set d k v) k x = v"
  by (simp add: dict_get_def map_of_dict_set)

lemma dict_get_set_other: "k \<noteq> k' \<Longrightarrow> dict_get (dict_set d k' v) k x = dict_get d k x"
  by (simp add: dict_get_def map_of_dict_set)

lemma dict_get_absent: "k \<notin> dict_keys d \<Longrightarrow> dict_get d k x = x"
  by (simp add: dict_get_def dict_keys_def map_of_eq_None_iff[THEN iffD2])

lemma lower_names:
  "lower ''Team'' = ''team''" "lower ''Member'' = ''member''"
  "lower ''TeamMember'' = ''teammember''" "lower ''teams_Members'' = ''teams_members''"
  by (simp_all add: lower_def lower_char_def)

lemmas ex_defs = example_state_def example_classes_def Team_def Member_def Author_def Book_def
  Profile_def Membership_def Reading_def declared_def

section \<open>Construction of a model instance\<close>

text \<open>
  C1, as the code has it. No keyword makes the construction fail with the
  invalid-keyword error. A \<open>pk\<close> keyword is renamed to the primary key's name, and the
  keywords are then filtered to the keys of \<open>meta.fields_mapping\<close>, so a keyword that
  names neither a field nor an attribute of the class is dropped silently. The
  keywords that are left pass the test of the loop, because the validation base
  (\<open>extra="allow"\<close>) has put every keyword on the instance before. So, once the base has
  accepted the keywords, with the primary key a declared field when \<open>pk\<close> is given, an
  instance is produced, and it holds exactly the keywords that \<open>meta.fields_mapping\<close>
  knows.
\<close>

theorem C1_no_keyword_is_rejected:
  assumes "base c kwargs = Inr d0" and "distinct (map fst kwargs)"
    and "dict_keys kwargs \<subseteq> dict_keys d0"
    and "''pk'' \<in> dict_keys kwargs \<longrightarrow>
           pkname (classes s c) \<in> dict_keys (cls_fields (classes s c))"
  shows "\<exists>i. EdgyBaseModel_init base s c kwargs = Inr i \<and> inst_class i = c
           \<and> (\<forall>k. map_of (inst_dict i) k =
                  (if k \<in> dict_keys (fields_mapping (meta (classes s c)))
                   then map_of (rename_pk (classes s c) kwargs) k else None))"
  using init_result[where base = base and c = c and kwargs = kwargs and s = s, OF assms]
  by (simp add: map_of_known_kwargs)

text \<open>
  \<open>Team(bogus=1, name="Ann", pk=7)\<close>: an instance with the \<open>name\<close> and the \<open>id\<close>, and
  without \<open>bogus\<close>.
\<close>

theorem C1_no_keyword_is_rejected_witness:
  "\<exists>i. EdgyBaseModel_init base_keeps example_state 0
          [(''bogus'', PInt 1), (''name'', PStr ''Ann''), (''pk'', PInt 7)] = Inr i
       \<and> inst_class i = 0
       \<and> map_of (inst_dict i) ''bogus'' = None
       \<and> map_of (inst_dict i) ''name'' = Some (PStr ''Ann'')
       \<and> map_of (inst_dict i) ''id'' = Some (PInt 7)"
proof -
  let ?kw = "[(''bogus'', PInt 1), (''name'', PStr ''Ann''), (''pk'', PInt 7)]"
  have h1: "base_keeps 0 ?kw = Inr ?kw" by (simp add: base_keeps_def)
  have h2: "distinct (map fst ?kw)" by simp
  have h3: "dict_keys ?kw \<subseteq> dict_keys ?kw" by simp
  have h4: "''pk'' \<in> dict_keys ?kw \<longrightarrow>
              pkname (classes example_state 0) \<in> dict_keys (cls_fields (classes example_state 0))"
    by (simp add: ex_defs dict_keys_def)
  from C1_no_keyword_is_rejected[where base = base_keeps and c = 0 and s = example_state
      and kwargs = ?kw and ?d0.0 = ?kw, OF h1 h2 h3 h4]
  obtain i where i: "EdgyBaseModel_init base_keeps example_state 0 ?kw = Inr i" "inst_class i = 0"
    and m: "\<And>k. map_of (inst_dict i) k =
                  (if k \<in> dict_keys (fields_mapping (meta (classes example_state 0)))
                   then map_of (rename_pk (classes example_state 0) ?kw) k else None)"
    by blast
  have "map_of (inst_dict i) ''bogus'' = None"
    "map_of (inst_dict i) ''name'' = Some (PStr ''Ann'')"
    "map_of (inst_dict i) ''id'' = Some (PInt 7)"
    by (simp_all add: m ex_defs dict_keys_def map_of_rename_pk dict_get_def)
  with i show ?thesis by blast
qed

text \<open>
  \<open>Team(bogus=1)\<close>: \<open>bogus\<close> is neither a field of \<open>Team\<close> nor an attribute of the class,
  and the construction does not fail: the filter drops the keyword and an instance with
  no value is produced.
\<close>

theorem C1_unknown_keyword_dropped:
  "''bogus'' \<notin> dict_keys (cls_fields (classes example_state 0)) \<and>
   map_of (cls_attrs (classes example_state 0)) ''bogus'' = None \<and>
   EdgyBaseModel_init base_keeps example_state 0 [(''bogus'', PInt 1)] =
     Inr \<lparr>inst_class = 0, inst_dict = []\<rparr>"
  by (simp add: ex_defs EdgyBaseModel_init_def setup_model_fields_from_kwargs_def base_keeps_def
      rename_pk_def known_kwargs_def dict_keys_def)

text \<open>
  C9, as the code has it. A model whose primary key is the field \<open>id\<close>, and two sets of
  keywords that differ only in giving the value \<open>v\<close> as \<open>pk\<close> or as \<open>id\<close>, wherever it
  stands among the other keywords. When every value involved is equal to itself under
  Python's \<open>==\<close> (\<open>nan\<close> is not), both constructions produce an instance, the two
  instances are equal (\<open>__eq__\<close>, either way round), \<open>.pk\<close> of each is \<open>v\<close> itself, and so
  \<open>.pk == v\<close>. The validation base is taken to have accepted both sets of keywords.
\<close>

theorem C9_pk_keyword_is_id_keyword:
  assumes "pkname (classes s c) = ''id''"
    and "''id'' \<in> dict_keys (cls_fields (classes s c))"
    and "''id'' \<in> dict_keys (fields_mapping (meta (classes s c)))"
    and "distinct (map fst kwargsA)" and "map_of kwargsA ''pk'' = Some v"
    and "''id'' \<notin> dict_keys kwargsA"
    and "distinct (map fst kwargsB)" and "map_of kwargsB ''id'' = Some v"
    and "''pk'' \<notin> dict_keys kwargsB"
    and "\<forall>k. k \<noteq> ''pk'' \<and> k \<noteq> ''id'' \<longrightarrow> map_of kwargsA k = map_of kwargsB k"
    and "base c kwargsA = Inr dA" and "dict_keys kwargsA \<subseteq> dict_keys dA"
    and "base c kwargsB = Inr dB" and "dict_keys kwargsB \<subseteq> dict_keys dB"
    and "\<forall>x \<in> insert PNone (snd ` set kwargsB \<union> snd ` set (cls_attrs (classes s c))). equals x x"
  shows "\<exists>a b. EdgyBaseModel_init base s c kwargsA = Inr a
            \<and> EdgyBaseModel_init base s c kwargsB = Inr b
            \<and> eq equals s a b \<and> eq equals s b a
            \<and> pk s a = Inr v \<and> pk s b = Inr v \<and> equals v v"
proof -
  let ?cls = "classes s c"
  let ?kA = "known_kwargs ?cls (rename_pk ?cls kwargsA)"
  let ?kB = "known_kwargs ?cls (rename_pk ?cls kwargsB)"
  let ?a = "\<lparr>inst_class = c, inst_dict = ?kA\<rparr>"
  let ?b = "\<lparr>inst_class = c, inst_dict = ?kB\<rparr>"
  have pkA: "''pk'' \<in> dict_keys kwargsA" using assms(5) by (simp add: dict_keys_map_of)
  have a: "EdgyBaseModel_init base s c kwargsA = Inr ?a"
    using assms(1,2)
    by (intro init_result[where base = base and c = c and kwargs = kwargsA and s = s,
          OF assms(11) assms(4) assms(12)]) simp
  have b: "EdgyBaseModel_init base s c kwargsB = Inr ?b"
    using assms(9)
    by (intro init_result[where base = base and c = c and kwargs = kwargsB and s = s,
          OF assms(13) assms(7) assms(14)]) simp
  have mA: "map_of (rename_pk ?cls kwargsA) k = map_of kwargsB k" for k
    using assms(1,5,8,9,10) pkA
    by (auto simp add: map_of_rename_pk dict_get_def dict_keys_map_of)
  have mB: "map_of (rename_pk ?cls kwargsB) = map_of kwargsB"
    using assms(9) by (simp add: map_of_rename_pk)
  have same: "map_of ?kA = map_of ?kB"
    by (rule ext) (simp add: map_of_known_kwargs mA mB)
  have idv: "map_of ?kB ''id'' = Some v"
    using assms(3,8) by (simp add: map_of_known_kwargs mB)
  have ga: "getattr s ?a key = getattr s ?b key" for key
    by (simp add: getattr_def same split: option.splits)
  have self_eq: "equals (getattr_default s ?b key PNone) (getattr_default s ?b key PNone)" for key
  proof -
    have "getattr_default s ?b key PNone
            \<in> insert PNone (snd ` set kwargsB \<union> snd ` set (cls_attrs ?cls))"
    proof (cases "map_of ?kB key")
      case (Some x)
      then have "map_of kwargsB key = Some x"
        by (simp add: map_of_known_kwargs mB split: if_splits)
      then have "(key, x) \<in> set kwargsB" by (rule map_of_SomeD)
      then have "x \<in> snd ` set kwargsB" by force
      with Some show ?thesis by (simp add: getattr_default_def getattr_def)
    next
      case None
      show ?thesis
      proof (cases "map_of (cls_attrs ?cls) key")
        case (Some x)
        then have "(key, x) \<in> set (cls_attrs ?cls)" by (rule map_of_SomeD)
        then have "x \<in> snd ` set (cls_attrs ?cls)" by force
        with None Some show ?thesis by (simp add: getattr_default_def getattr_def)
      next
        case n: None
        with None show ?thesis by (simp add: getattr_default_def getattr_def)
      qed
    qed
    with assms(15) show ?thesis by blast
  qed
  have gd: "getattr_default s ?a key PNone = getattr_default s ?b key PNone" for key
    by (simp add: getattr_default_def ga)
  have e1: "eq equals s ?a ?b" by (simp add: eq_def list_all_iff gd self_eq)
  have e2: "eq equals s ?b ?a" by (simp add: eq_def list_all_iff gd self_eq)
  have p2: "pk s ?b = Inr v" using assms(1) idv by (simp add: pk_def getattr_def)
  have p1: "pk s ?a = Inr v" using p2 assms(1) by (simp add: pk_def ga)
  have "v \<in> snd ` set kwargsB" using map_of_SomeD[OF assms(8)] by force
  with assms(15) have vv: "equals v v" by blast
  from a b e1 e2 p1 p2 vv show ?thesis by blast
qed

text \<open>\<open>Team(name="Ann", pk=7)\<close> and \<open>Team(id=7, name="Ann")\<close>.\<close>

theorem C9_pk_keyword_witness:
  "\<exists>a b. EdgyBaseModel_init base_keeps example_state 0 [(''name'', PStr ''Ann''), (''pk'', PInt 7)] = Inr a
       \<and> EdgyBaseModel_init base_keeps example_state 0 [(''id'', PInt 7), (''name'', PStr ''Ann'')] = Inr b
       \<and> eq py_eq example_state a b \<and> eq py_eq example_state b a
       \<and> pk example_state a = Inr (PInt 7) \<and> pk example_state b = Inr (PInt 7)
       \<and> py_eq (PInt 7) (PInt 7)"
proof -
  let ?A = "[(''name'', PStr ''Ann''), (''pk'', PInt 7)]"
  let ?B = "[(''id'', PInt 7), (''name'', PStr ''Ann'')]"
  have h1: "pkname (classes example_state 0) = ''id''" by (simp add: ex_defs)
  have h2: "''id'' \<in> dict_keys (cls_fields (classes example_state 0))"
    by (simp add: ex_defs dict_keys_def)
  have h3: "''id'' \<in> dict_keys (fields_mapping (meta (classes example_state 0)))"
    by (simp add: ex_defs dict_keys_def)
  have h4: "distinct (map fst ?A)" and h5: "map_of ?A ''pk'' = Some (PInt 7)"
    and h6: "''id'' \<notin> dict_keys ?A" by (simp_all add: dict_keys_def)
  have h7: "distinct (map fst ?B)" and h8: "map_of ?B ''id'' = Some (PInt 7)"
    and h9: "''pk'' \<notin> dict_keys ?B" by (simp_all add: dict_keys_def)
  have h10: "\<forall>k. k \<noteq> ''pk'' \<and> k \<noteq> ''id'' \<longrightarrow> map_of ?A k = map_of ?B k" by simp
  have h11: "base_keeps 0 ?A = Inr ?A" and h13: "base_keeps 0 ?B = Inr ?B"
    by (simp_all add: base_keeps_def)
  have h12: "dict_keys ?A \<subseteq> dict_keys ?A" and h14: "dict_keys ?B \<subseteq> dict_keys ?B" by simp_all
  have h15: "\<forall>x \<in> insert PNone (snd ` set ?B \<union> snd ` set (cls_attrs (classes example_state 0))).
               py_eq x x"
    by (simp add: ex_defs py_eq_def)
  from C9_pk_keyword_is_id_keyword[where base = base_keeps and c = 0 and s = example_state
      and v = "PInt 7" and kwargsA = ?A and kwargsB = ?B and dA = ?A and dB = ?B
      and equals = py_eq, OF h1 h2 h3 h4 h5 h6 h7 h8 h9 h10 h11 h12 h13 h14 h15]
  show ?thesis .
qed

text \<open>
  \<open>Reading(pk=nan)\<close> and \<open>Reading(id=nan)\<close>: both are constructed, but the instances are
  not equal, and \<open>.pk == nan\<close> is false, since \<open>nan\<close> is not equal to itself.
\<close>

theorem C9_nan_breaks_equality:
  "EdgyBaseModel_init base_keeps example_state 6 [(''pk'', PFloat NaN)] =
     Inr \<lparr>inst_class = 6, inst_dict = [(''id'', PFloat NaN)]\<rparr>
   \<and> EdgyBaseModel_init base_keeps example_state 6 [(''id'', PFloat NaN)] =
     Inr \<lparr>inst_class = 6, inst_dict = [(''id'', PFloat NaN)]\<rparr>
   \<and> \<not> eq py_eq example_state \<lparr>inst_class = 6, inst_dict = [(''id'', PFloat NaN)]\<rparr>
                                \<lparr>inst_class = 6, inst_dict = [(''id'', PFloat NaN)]\<rparr>
   \<and> pk example_state \<lparr>inst_class = 6, inst_dict = [(''id'', PFloat NaN)]\<rparr> = Inr (PFloat NaN)
   \<and> \<not> py_eq (PFloat NaN) (PFloat NaN)"
  by (simp add: ex_defs EdgyBaseModel_init_def setup_model_fields_from_kwargs_def base_keeps_def
      rename_pk_def known_kwargs_def dict_keys_def dict_pop_def dict_get_def hasattr_def
      getattr_def edgy_setattr_def eq_def getattr_default_def pk_def py_eq_def)

section \<open>The \<open>pk\<close> property of a reflected model\<close>

text \<open>
  C4, as the code has it. On \<open>EdgyBaseReflectModel\<close>, reading \<open>pk\<close> when the primary-key
  attribute is not set gives \<open>None\<close> instead of failing. Assigning to \<open>pk\<close> calls the
  builtin \<open>setattr\<close> and so goes through \<open>__setattr__\<close>: when the primary key's name is
  a declared field that is not a many-to-many field, what is stored is the field's
  \<open>expand_relationship(value)\<close>.
\<close>

theorem C4_reflect_pk_goes_through_setattr:
  assumes "cls = classes s (inst_class self)" and "pkn = pkname cls"
  shows "(getattr s self pkn = Inl e \<longrightarrow> reflect_pk s self = PNone)
       \<and> (map_of (cls_fields cls) pkn = Some fd \<and> fd \<noteq> ManyToManyFK \<longrightarrow>
            reflect_pk_setter expand_relationship many_to_many_relation s self v =
              Inr (edgy_setattr self pkn (expand_relationship fd v)))"
  using assms by (simp add: reflect_pk_def getattr_default_def reflect_pk_setter_def setattr_def)

text \<open>
  A fresh instance of \<open>Profile\<close>: \<open>pk\<close> reads as \<open>None\<close> where the getter of the base model
  raises, and assigning 7 stores the expansion of 7 by the foreign key \<open>user\<close>.
\<close>

theorem C4_reflect_pk_witness:
  "reflect_pk example_state \<lparr>inst_class = 4, inst_dict = []\<rparr> = PNone
   \<and> pk example_state \<lparr>inst_class = 4, inst_dict = []\<rparr> = Inl AttributeError
   \<and> reflect_pk_setter expand_stub relation_name example_state \<lparr>inst_class = 4, inst_dict = []\<rparr> (PInt 7) =
       Inr (edgy_setattr \<lparr>inst_class = 4, inst_dict = []\<rparr> ''user''
              (expand_stub (ForeignKey (Model 2) False CASCADE ''profile'') (PInt 7)))"
proof -
  let ?self = "\<lparr>inst_class = 4, inst_dict = []\<rparr>"
  have g: "getattr example_state ?self ''user'' = Inl AttributeError"
    by (simp add: getattr_def ex_defs)
  have p: "pkname (classes example_state (inst_class ?self)) = ''user''" by (simp add: ex_defs)
  have f: "map_of (cls_fields (classes example_state (inst_class ?self))) ''user'' =
             Some (ForeignKey (Model 2) False CASCADE ''profile'')
           \<and> ForeignKey (Model 2) False CASCADE ''profile'' \<noteq> ManyToManyFK"
    by (simp add: ex_defs)
  have k: "pk example_state ?self = Inl AttributeError"
    using g p by (simp add: pk_def)
  from C4_reflect_pk_goes_through_setattr[where s = example_state and self = ?self
      and pkn = "''user''" and e = AttributeError
      and fd = "ForeignKey (Model 2) False CASCADE ''profile''"
      and expand_relationship = expand_stub and many_to_many_relation = relation_name
      and v = "PInt 7", OF refl p[symmetric]] g f k
  show ?thesis by simp
qed

text \<open>
  Assigning 7 to \<open>pk\<close> of that instance does not write 7 into the attribute \<open>user\<close>: the
  value went through the relationship expansion of \<open>__setattr__\<close>.
\<close>

theorem C4_reflect_pk_not_raw:
  "reflect_pk_setter expand_stub relation_name example_state \<lparr>inst_class = 4, inst_dict = []\<rparr> (PInt 7) =
     Inr \<lparr>inst_class = 4, inst_dict = [(''user'', PInst 2 [(''pk'', PInt 7)])]\<rparr>
   \<and> reflect_pk_setter expand_stub relation_name example_state \<lparr>inst_class = 4, inst_dict = []\<rparr> (PInt 7) \<noteq>
     Inr (edgy_setattr \<lparr>inst_class = 4, inst_dict = []\<rparr> (pkname (classes example_state 4)) (PInt 7))"
  by (simp add: reflect_pk_setter_def setattr_def ex_defs expand_stub_def edgy_setattr_def)

section \<open>Reflection\<close>

text \<open>
  C8. Whatever exception the introspection of \<open>reflect\<close> ends with, \<open>reflect\<close> raises
  \<open>ImproperlyConfigured\<close> with the detail \<open>Table with the name <tablename> does not exist.\<close>
  and that exception as its cause; so does \<open>build\<close>, for the table name of the model's
  meta.
\<close>

theorem C8_reflect_failure_is_improperly_configured:
  "((case registry (meta (classes s c)) of
       None \<Rightarrow> Inl AttributeError
     | Some engine \<Rightarrow> autoload table_name metadata engine) = Inl e \<longrightarrow>
    reflect autoload s c table_name metadata =
      Inl (ImproperlyConfigured (''Table with the name '' @ table_name @ '' does not exist.'') e))
   \<and> (registry (meta (classes s c)) = Some r
        \<and> autoload (tablename (meta (classes s c))) r r = Inl e \<longrightarrow>
      build autoload s c =
        Inl (ImproperlyConfigured
               (''Table with the name '' @ tablename (meta (classes s c)) @ '' does not exist.'') e))"
  by (simp add: build_def reflect_def)

text \<open>The reflected model \<open>Profile\<close>, against a database with no tables.\<close>

theorem C8_reflect_failure_witness:
  "build no_such_table example_state 4 =
     Inl (ImproperlyConfigured ''Table with the name profiles does not exist.''
            (OtherException ''NoSuchTableError'' ''profiles''))
   \<and> reflect no_such_table example_state 4 ''users'' 0 =
     Inl (ImproperlyConfigured ''Table with the name users does not exist.''
            (OtherException ''NoSuchTableError'' ''users''))"
proof -
  have r: "registry (meta (classes example_state 4)) = Some 0" by (simp add: ex_defs)
  have t: "tablename (meta (classes example_state 4)) = ''profiles''" by (simp add: ex_defs)
  have a: "no_such_table ''profiles'' 0 0 = Inl (OtherException ''NoSuchTableError'' ''profiles'')"
    by (simp add: no_such_table_def)
  have b: "(case registry (meta (classes example_state 4)) of
              None \<Rightarrow> Inl AttributeError
            | Some engine \<Rightarrow> no_such_table ''users'' 0 engine) =
           Inl (OtherException ''NoSuchTableError'' ''users'')"
    by (simp add: r no_such_table_def)
  from C8_reflect_failure_is_improperly_configured[where s = example_state and c = 4
      and autoload = no_such_table and r = 0
      and e = "OtherException ''NoSuchTableError'' ''profiles''"] r t a
  have x: "build no_such_table example_state 4 =
     Inl (ImproperlyConfigured ''Table with the name profiles does not exist.''
            (OtherException ''NoSuchTableError'' ''profiles''))"
    by simp
  from C8_reflect_failure_is_improperly_configured[where s = example_state and c = 4
      and autoload = no_such_table and table_name = "''users''" and metadata = 0
      and e = "OtherException ''NoSuchTableError'' ''users''"] b
  have y: "reflect no_such_table example_state 4 ''users'' 0 =
     Inl (ImproperlyConfigured ''Table with the name users does not exist.''
            (OtherException ''NoSuchTableError'' ''users''))"
    by simp
  from x y show ?thesis by simp
qed

section \<open>Construction of a many-to-many field\<close>

lemma factory_null:
  assumes "ForeignKeyFieldFactory_new kw = Inr ns"
  shows "map_of ns ''null'' = Some (dict_get kw ''null'' (PBool False))"
proof (cases "validate kw")
  case (Inl e)
  with assms show ?thesis by (simp add: ForeignKeyFieldFactory_new_def)
next
  case (Inr u)
  from assms show ?thesis
    unfolding ForeignKeyFieldFactory_new_def Inr dict_pop_def Let_def
    by (auto simp add: dict_get_del split: if_splits)
qed

lemma factory_related_name:
  assumes "ForeignKeyFieldFactory_new kw = Inr ns"
  shows "map_of ns ''related_name'' = Some (dict_get kw ''related_name'' PNone)"
proof (cases "validate kw")
  case (Inl e)
  with assms show ?thesis by (simp add: ForeignKeyFieldFactory_new_def)
next
  case (Inr u)
  from assms show ?thesis
    unfolding ForeignKeyFieldFactory_new_def Inr dict_pop_def Let_def
    by (auto simp add: dict_get_del split: if_splits)
qed

text \<open>
  The field keeps the \<open>related_name\<close> it was given, whatever \<open>validate\<close> did to its own
  copy of the options; an absent \<open>related_name\<close> stays \<open>None\<close>.
\<close>

lemma m2m_related_name_unchanged:
  assumes "snd (ManyToManyField_new to through kwargs) = Inr ns"
  shows "map_of ns ''related_name'' = Some (dict_get kwargs ''related_name'' PNone)"
  using assms factory_related_name[of _ ns]
  by (auto simp add: ManyToManyField_new_def Let_def dict_get_set_other)

lemma validate_locals_lowers:
  "validate_locals [(''related_name'', PStr ''Members'')] = Inr [(''related_name'', PStr ''members'')]"
  by code_simp

lemma m2m_null_true:
  "ManyToManyField_new (PCls 1) PNone [(''null'', PBool True)] =
     ([null_warning],
      Inr [(''__type__'', PType ''sqlalchemy.ForeignKey''), (''to'', PCls 1),
           (''on_update'', PStr ''CASCADE''), (''on_delete'', PStr ''RESTRICT''),
           (''related_name'', PNone), (''annotation'', PType ''sqlalchemy.ForeignKey''),
           (''null'', PBool True), (''comment'', PNone), (''owner'', PNone),
           (''server_default'', PNone), (''server_onupdate'', PNone), (''through'', PNone),
           (''registry'', PNone), (''column_type'', PType ''sqlalchemy.ForeignKey''),
           (''is_m2m'', PBool True), (''is_o2o'', PBool False), (''is_fk'', PBool False),
           (''constraints'', PList [])])"
  by code_simp

lemma m2m_no_null:
  "ManyToManyField_new (PCls 1) PNone [] =
     ([],
      Inr [(''__type__'', PType ''sqlalchemy.ForeignKey''), (''to'', PCls 1),
           (''on_update'', PStr ''CASCADE''), (''on_delete'', PStr ''RESTRICT''),
           (''related_name'', PNone), (''annotation'', PType ''sqlalchemy.ForeignKey''),
           (''null'', PBool True), (''comment'', PNone), (''owner'', PNone),
           (''server_default'', PNone), (''server_onupdate'', PNone), (''through'', PNone),
           (''registry'', PNone), (''column_type'', PType ''sqlalchemy.ForeignKey''),
           (''is_m2m'', PBool True), (''is_o2o'', PBool False), (''is_fk'', PBool False),
           (''constraints'', PList [])])"
  by code_simp

text \<open>
  C2, at \<open>ManyToManyField(Member, related_name="Members")\<close>: the field that results has
  the \<open>related_name\<close> \<open>Members\<close>, as given, and not \<open>members\<close>. \<open>validate\<close> lower-cases
  the name in its own dictionary (\<open>validate_locals_lowers\<close>), which the caller never sees.
\<close>

theorem C2_related_name_not_lowered:
  "ManyToManyField_new (PCls 1) PNone [(''related_name'', PStr ''Members'')] =
     ([],
      Inr [(''__type__'', PType ''sqlalchemy.ForeignKey''), (''to'', PCls 1),
           (''on_update'', PStr ''CASCADE''), (''on_delete'', PStr ''RESTRICT''),
           (''related_name'', PStr ''Members''), (''annotation'', PType ''sqlalchemy.ForeignKey''),
           (''null'', PBool True), (''comment'', PNone), (''owner'', PNone),
           (''server_default'', PNone), (''server_onupdate'', PNone), (''through'', PNone),
           (''registry'', PNone), (''column_type'', PType ''sqlalchemy.ForeignKey''),
           (''is_m2m'', PBool True), (''is_o2o'', PBool False), (''is_fk'', PBool False),
           (''constraints'', PList [])])"
  by code_simp

text \<open>
  C5. The warning is written exactly when the \<open>null\<close> given is true, so none is written
  when \<open>null\<close> is not given; and every field that results has \<open>null\<close> true.
\<close>

theorem C5_null_forced_true:
  "fst (ManyToManyField_new to through kwargs) =
     (if truthy (dict_get kwargs ''null'' PNone) then [null_warning] else [])
   \<and> (''null'' \<notin> dict_keys kwargs \<longrightarrow> fst (ManyToManyField_new to through kwargs) = [])
   \<and> (snd (ManyToManyField_new to through kwargs) = Inr ns \<longrightarrow>
        map_of ns ''null'' = Some (PBool True))"
proof -
  have w: "fst (ManyToManyField_new to through kwargs) =
     (if truthy (dict_get kwargs ''null'' PNone) then [null_warning] else [])"
    by (simp add: ManyToManyField_new_def Let_def)
  have n: "map_of ns ''null'' = Some (PBool True)"
    if "snd (ManyToManyField_new to through kwargs) = Inr ns"
    using that factory_null[of _ ns]
    by (auto simp add: ManyToManyField_new_def Let_def dict_get_set_same)
  from w n show ?thesis by (simp add: dict_get_absent)
qed

text \<open>
  \<open>ManyToManyField(Member, null=True)\<close> warns and gives a field with \<open>null\<close> true;
  \<open>ManyToManyField(Member)\<close> gives a field with \<open>null\<close> true and no warning.
\<close>

theorem C5_null_forced_true_witness:
  "fst (ManyToManyField_new (PCls 1) PNone [(''null'', PBool True)]) = [null_warning]
   \<and> (\<exists>ns. snd (ManyToManyField_new (PCls 1) PNone [(''null'', PBool True)]) = Inr ns
          \<and> map_of ns ''null'' = Some (PBool True))
   \<and> ''null'' \<notin> dict_keys ([] :: pyval pydict)
   \<and> fst (ManyToManyField_new (PCls 1) PNone []) = []
   \<and> (\<exists>ns. snd (ManyToManyField_new (PCls 1) PNone []) = Inr ns
          \<and> map_of ns ''null'' = Some (PBool True))"
proof -
  obtain ns1 where ns1: "snd (ManyToManyField_new (PCls 1) PNone [(''null'', PBool True)]) = Inr ns1"
    using m2m_null_true by (metis snd_conv)
  obtain ns2 where ns2: "snd (ManyToManyField_new (PCls 1) PNone []) = Inr ns2"
    using m2m_no_null by (metis snd_conv)
  have k: "''null'' \<notin> dict_keys ([] :: pyval pydict)" by (simp add: dict_keys_def)
  from C5_null_forced_true[of "PCls 1" PNone "[(''null'', PBool True)]" ns1] ns1
  have a: "fst (ManyToManyField_new (PCls 1) PNone [(''null'', PBool True)]) = [null_warning]"
    and b: "map_of ns1 ''null'' = Some (PBool True)"
    by (simp_all add: dict_get_def)
  from C5_null_forced_true[of "PCls 1" PNone "[]" ns2] ns2 k
  have c: "fst (ManyToManyField_new (PCls 1) PNone []) = []"
    and d: "map_of ns2 ''null'' = Some (PBool True)"
    by (simp_all add: dict_get_def)
  from a b c d k ns1 ns2 show ?thesis by blast
qed

section \<open>The related stub of a foreign key\<close>

text \<open>
  C3, at a row of \<open>Book\<close> (columns \<open>id\<close>, \<open>name\<close>, \<open>author\<close>) whose foreign key \<open>author\<close>
  goes to \<open>Author\<close> (fields \<open>id\<close>, \<open>name\<close>), with no eager load: \<open>child_item\<close> gets two
  entries, one for each column of \<open>Book\<close> named like a field of \<open>Author\<close>, each under
  the column's name and each with the row's value of \<open>author\<close>.
\<close>

theorem C3_child_item_two_entries:
  "child_item_loop (table_columns (classes example_state 3))
     (dict_keys (cls_fields (classes example_state 2))) ''author''
     [(''id'', PInt 1), (''name'', PStr ''Dune''), (''author'', PInt 7)] [] =
   Inr [(''id'', PInt 7), (''name'', PInt 7)]"
  by (simp add: ex_defs dict_keys_def)

section \<open>The bridge model\<close>

text \<open>
  C6. For the many-to-many field of \<open>Team\<close> to \<open>Member\<close> with no \<open>through\<close> and no
  \<open>related_name\<close>, \<open>create_through_model\<close> makes a new model class named \<open>TeamMember\<close>
  with the table name \<open>teams_members\<close> and three fields: \<open>id\<close>, an
  \<open>IntegerField(primary_key=True)\<close>; \<open>team\<close>, a foreign key to the owner, nullable, with
  \<open>on_delete=CASCADE\<close> and the related name \<open>team_teammembers_set\<close>; and \<open>member\<close>, a
  foreign key to the target, nullable, with \<open>on_delete=CASCADE\<close> and the related name
  \<open>member_teammembers_set\<close>. The model is registered under its name.
\<close>

theorem C6_bridge_of_team_and_member:
  assumes "cls_name (classes s t) = ''Team''" and "cls_name (classes s m) = ''Member''"
    and "f_owner self = Some t" and "f_to self = Model m" and "f_through self = None"
    and "f_related_name self = None" and "f_registry self = Some r"
  shows "\<exists>s'. create_through_model s self =
            Inr (None, self\<lparr>f_through := Some (Model (next_cls s))\<rparr>, s')
          \<and> cls_name (classes s' (next_cls s)) = ''TeamMember''
          \<and> tablename (meta (classes s' (next_cls s))) = ''teams_members''
          \<and> cls_fields (classes s' (next_cls s)) =
               [(''id'', IntegerField True),
                (''team'', ForeignKey (Model t) True CASCADE ''team_teammembers_set''),
                (''member'', ForeignKey (Model m) True CASCADE ''member_teammembers_set'')]
          \<and> map_of (registries s' r) ''TeamMember'' = Some (next_cls s)"
  using assms
  by (simp add: create_through_model_def through_truthy_def name_of_def Let_def lower_names
      create_edgy_model_def add_model_to_register_def map_of_dict_set)

text \<open>The field \<open>members\<close> of \<open>Team\<close> in the example store.\<close>

theorem C6_bridge_witness:
  "\<exists>s'. create_through_model example_state members_field =
            Inr (None, members_field\<lparr>f_through := Some (Model 7)\<rparr>, s')
          \<and> cls_name (classes s' 7) = ''TeamMember''
          \<and> tablename (meta (classes s' 7)) = ''teams_members''
          \<and> cls_fields (classes s' 7) =
               [(''id'', IntegerField True),
                (''team'', ForeignKey (Model 0) True CASCADE ''team_teammembers_set''),
                (''member'', ForeignKey (Model 1) True CASCADE ''member_teammembers_set'')]
          \<and> map_of (registries s' 0) ''TeamMember'' = Some 7"
proof -
  have h: "cls_name (classes example_state 0) = ''Team''"
    "cls_name (classes example_state 1) = ''Member''"
    "f_owner members_field = Some 0" "f_to members_field = Model 1"
    "f_through members_field = None" "f_related_name members_field = None"
    "f_registry members_field = Some 0"
    by (simp_all add: ex_defs members_field_def)
  have n: "next_cls example_state = 7" by (simp add: example_state_def)
  from C6_bridge_of_team_and_member[OF h] show ?thesis unfolding n .
qed

text \<open>
  C7. A field whose \<open>through\<close> is a model class, with a model class as target: the call
  of \<open>create_through_model\<close> returns that class. Whenever the field has a \<open>through\<close>
  and the call returns, it returns a model class, and that class is the field's
  \<open>through\<close> from then on; a second call returns the same class and leaves the field and
  the store as they are; no model class is created and no registry's catalog changes in
  either call.
\<close>

theorem C7_explicit_through_idempotent:
  "(f_through self = Some (Model a) \<and> f_to self = Model m \<longrightarrow>
      (\<exists>s'. create_through_model s self = Inr (Some a, self, s')))
   \<and> (through_truthy (f_through self) \<and> create_through_model s self = Inr (ret, self', s') \<longrightarrow>
      (\<exists>b. ret = Some b \<and> f_through self' = Some (Model b)
           \<and> create_through_model s' self' = Inr (Some b, self', s')
           \<and> registries s' = registries s \<and> next_cls s' = next_cls s))"
proof -
  have total: "\<exists>s'. create_through_model s self = Inr (Some a, self, s')"
    if "f_through self = Some (Model a)" "f_to self = Model m"
    using that
    by (simp add: create_through_model_def through_truthy_def resolve_through_def name_of_def
        Let_def)
  have twice: "\<exists>b. ret = Some b \<and> f_through self' = Some (Model b)
           \<and> create_through_model s' self' = Inr (Some b, self', s')
           \<and> registries s' = registries s \<and> next_cls s' = next_cls s"
    if t: "through_truthy (f_through self)"
      and c: "create_through_model s self = Inr (ret, self', s')"
  proof -
    from t c obtain th to_name where th: "resolve_through s self = Inr th"
      and tn: "name_of s (f_to self) = Inr to_name"
      and rv: "ret = Some th"
      and sf: "self' = self\<lparr>f_through := Some (Model th)\<rparr>"
      and st: "s' = s\<lparr>classes := (classes s)
                   (th := (classes s th)\<lparr>meta := (meta (classes s th))
                      \<lparr>is_multi := True, multi_related := [lower to_name]\<rparr>\<rparr>)\<rparr>"
      by (auto simp add: create_through_model_def Let_def split: sum.splits)
    have tn1: "name_of s' (f_to self') = Inr to_name"
      using tn unfolding st sf
      by (auto simp add: name_of_def split: model_ref.splits)
    have res1: "resolve_through s' self' = Inr th"
      by (simp add: resolve_through_def sf)
    have tr1: "through_truthy (f_through self')"
      by (simp add: sf through_truthy_def)
    have again: "create_through_model s' self' = Inr (Some th, self', s')"
      using tn1 res1 tr1
      by (simp add: create_through_model_def Let_def) (simp add: st sf)
    from rv sf st again show ?thesis by simp
  qed
  from total twice show ?thesis by blast
qed

text \<open>
  The field \<open>members\<close> of \<open>Team\<close> declared with \<open>through="Membership"\<close>: both calls return
  the class at address 5. Declared with the class itself, the call returns it as well.
\<close>

theorem C7_explicit_through_witness:
  "(\<exists>self1 s1. create_through_model example_state members_through_field = Inr (Some 5, self1, s1)
       \<and> f_through self1 = Some (Model 5)
       \<and> create_through_model s1 self1 = Inr (Some 5, self1, s1)
       \<and> registries s1 = registries example_state \<and> next_cls s1 = next_cls example_state)
   \<and> (\<exists>s1. create_through_model example_state (members_through_field\<lparr>f_through := Some (Model 5)\<rparr>) =
          Inr (Some 5, members_through_field\<lparr>f_through := Some (Model 5)\<rparr>, s1))"
proof -
  have t: "through_truthy (f_through members_through_field)"
    by (simp add: members_through_field_def through_truthy_def)
  obtain r1 self1 s1 where
    c: "create_through_model example_state members_through_field = Inr (r1, self1, s1)"
    and r1: "r1 = Some 5"
    by (simp add: create_through_model_def members_through_field_def through_truthy_def
        resolve_through_def name_of_def ex_defs Let_def)
  from C7_explicit_through_idempotent[where self = members_through_field and s = example_state
      and ret = r1 and self' = self1 and s' = s1, THEN conjunct2] t r1 c
  have x: "\<exists>self1 s1. create_through_model example_state members_through_field = Inr (Some 5, self1, s1)
       \<and> f_through self1 = Some (Model 5)
       \<and> create_through_model s1 self1 = Inr (Some 5, self1, s1)
       \<and> registries s1 = registries example_state \<and> next_cls s1 = next_cls example_state"
    by auto
  have h: "f_through (members_through_field\<lparr>f_through := Some (Model 5)\<rparr>) = Some (Model 5)"
    "f_to (members_through_field\<lparr>f_through := Some (Model 5)\<rparr>) = Model 1"
    by (simp_all add: members_through_field_def)
  from C7_explicit_through_idempotent[where self = "members_through_field\<lparr>f_through := Some (Model 5)\<rparr>"
      and a = 5 and m = 1 and s = example_state, THEN conjunct1] h
  have y: "\<exists>s1. create_through_model example_state (members_through_field\<lparr>f_through := Some (Model 5)\<rparr>) =
          Inr (Some 5, members_through_field\<lparr>f_through := Some (Model 5)\<rparr>, s1)"
    by simp
  from x y show ?thesis by blast
qed

text \<open>
  C10. With no \<open>through\<close>, an owner, a target class and a registry,
  \<open>create_through_model\<close> returns \<open>None\<close>. Before that it has created one new model
  class, the one that \<open>create_edgy_model\<close> makes from the name, the three fields and the
  meta; it has made that class the field's \<open>through\<close>, and it has registered it under
  its name in the field's registry; nothing else in the store has changed. Whenever the
  call returns, it returns \<open>None\<close> exactly when the field had no \<open>through\<close>, and then the
  field had an owner, a target class and a registry; with a \<open>through\<close> it returns the
  model that is then the field's \<open>through\<close>.
\<close>

theorem C10_returns_none_when_synthesized:
  "(\<not> through_truthy (f_through self) \<and> f_owner self = Some ow \<and> f_to self = Model m
      \<and> f_registry self = Some r \<longrightarrow>
      (let owner_name = cls_name (classes s ow);
           to_name = cls_name (classes s m);
           class_name = owner_name @ to_name;
           related_name = (case f_related_name self of None \<Rightarrow> [] | Some rn \<Rightarrow> rn);
           bridge =
             create_edgy_model class_name
               (dict_set
                 (dict_set
                   (dict_set [] ''id'' (IntegerField True))
                   (lower owner_name)
                   (ForeignKey (Model ow) True CASCADE
                      (if related_name \<noteq> [] then related_name @ ''_'' @ lower class_name @ ''s_set''
                       else lower owner_name @ ''_'' @ lower class_name @ ''s_set'')))
                 (lower to_name)
                 (ForeignKey (Model m) True CASCADE
                    (if related_name \<noteq> [] then related_name
                     else lower to_name @ ''_'' @ lower class_name @ ''s_set'')))
               \<lparr>tablename = lower (lower owner_name @ ''s_'' @ to_name @ ''s''),
                registry = Some r, is_multi = True, multi_related = [lower to_name],
                fields_mapping = [], foreign_key_fields = []\<rparr>
       in create_through_model s self =
            Inr (None,
                 self\<lparr>f_through := Some (Model (next_cls s))\<rparr>,
                 s\<lparr>classes := (classes s)(next_cls s := bridge),
                   registries := (registries s)
                     (r := dict_set (registries s r) class_name (next_cls s)),
                   next_cls := Suc (next_cls s)\<rparr>)))
   \<and> (create_through_model s self = Inr (ret, self', s') \<longrightarrow>
        (ret = None) = (\<not> through_truthy (f_through self)))
   \<and> (create_through_model s self = Inr (ret, self', s') \<and> through_truthy (f_through self) \<longrightarrow>
        (\<exists>a. ret = Some a \<and> f_through self' = Some (Model a)))
   \<and> (create_through_model s self = Inr (ret, self', s') \<and> \<not> through_truthy (f_through self) \<longrightarrow>
        (\<exists>ow m r. f_owner self = Some ow \<and> f_to self = Model m \<and> f_registry self = Some r))"
proof -
  have one: "\<not> through_truthy (f_through self) \<and> f_owner self = Some ow \<and> f_to self = Model m
      \<and> f_registry self = Some r \<longrightarrow>
      (let owner_name = cls_name (classes s ow);
           to_name = cls_name (classes s m);
           class_name = owner_name @ to_name;
           related_name = (case f_related_name self of None \<Rightarrow> [] | Some rn \<Rightarrow> rn);
           bridge =
             create_edgy_model class_name
               (dict_set
                 (dict_set
                   (dict_set [] ''id'' (IntegerField True))
                   (lower owner_name)
                   (ForeignKey (Model ow) True CASCADE
                      (if related_name \<noteq> [] then related_name @ ''_'' @ lower class_name @ ''s_set''
                       else lower owner_name @ ''_'' @ lower class_name @ ''s_set'')))
                 (lower to_name)
                 (ForeignKey (Model m) True CASCADE
                    (if related_name \<noteq> [] then related_name
                     else lower to_name @ ''_'' @ lower class_name @ ''s_set'')))
               \<lparr>tablename = lower (lower owner_name @ ''s_'' @ to_name @ ''s''),
                registry = Some r, is_multi = True, multi_related = [lower to_name],
                fields_mapping = [], foreign_key_fields = []\<rparr>
       in create_through_model s self =
            Inr (None,
                 self\<lparr>f_through := Some (Model (next_cls s))\<rparr>,
                 s\<lparr>classes := (classes s)(next_cls s := bridge),
                   registries := (registries s)
                     (r := dict_set (registries s r) class_name (next_cls s)),
                   next_cls := Suc (next_cls s)\<rparr>))"
    by (simp add: create_through_model_def name_of_def Let_def add_model_to_register_def
        create_edgy_model_def split del: if_split)
  have b: "(ret = None) = (\<not> through_truthy (f_through self))"
    if "create_through_model s self = Inr (ret, self', s')"
    using that
    by (auto simp add: create_through_model_def Let_def add_model_to_register_def
        split: if_splits sum.splits option.splits)
  have c: "\<exists>a. ret = Some a \<and> f_through self' = Some (Model a)"
    if "create_through_model s self = Inr (ret, self', s')" "through_truthy (f_through self)"
    using that
    by (auto simp add: create_through_model_def Let_def split: sum.splits)
  have d: "\<exists>ow m r. f_owner self = Some ow \<and> f_to self = Model m \<and> f_registry self = Some r"
    if "create_through_model s self = Inr (ret, self', s')" "\<not> through_truthy (f_through self)"
    using that
    by (cases "f_owner self"; cases "f_to self"; cases "f_registry self")
      (simp_all add: create_through_model_def name_of_def Let_def add_model_to_register_def)
  have two: "create_through_model s self = Inr (ret, self', s') \<longrightarrow>
        (ret = None) = (\<not> through_truthy (f_through self))"
    using b by blast
  have three: "create_through_model s self = Inr (ret, self', s') \<and> through_truthy (f_through self) \<longrightarrow>
        (\<exists>a. ret = Some a \<and> f_through self' = Some (Model a))"
    using c by blast
  have four: "create_through_model s self = Inr (ret, self', s') \<and> \<not> through_truthy (f_through self) \<longrightarrow>
        (\<exists>ow m r. f_owner self = Some ow \<and> f_to self = Model m \<and> f_registry self = Some r)"
    using d by blast
  show ?thesis by (rule conjI[OF one conjI[OF two conjI[OF three four]]])
qed

text \<open>
  The field \<open>members\<close> of \<open>Team\<close>. Declared without a bridge model, the call returns
  \<open>None\<close>, and the class at the new address 7 is the bridge \<open>TeamMember\<close>, registered
  under that name, while \<open>Team\<close> is as it was. Declared with \<open>through="Membership"\<close>, the
  call returns that model.
\<close>

theorem C10_returns_none_witness:
  "\<not> through_truthy (f_through members_field)
   \<and> (\<exists>s'. create_through_model example_state members_field =
               Inr (None, members_field\<lparr>f_through := Some (Model 7)\<rparr>, s')
           \<and> next_cls s' = 8
           \<and> classes s' 7 =
               create_edgy_model ''TeamMember''
                 [(''id'', IntegerField True),
                  (''team'', ForeignKey (Model 0) True CASCADE ''team_teammembers_set''),
                  (''member'', ForeignKey (Model 1) True CASCADE ''member_teammembers_set'')]
                 \<lparr>tablename = ''teams_members'', registry = Some 0, is_multi = True,
                  multi_related = [''member''], fields_mapping = [], foreign_key_fields = []\<rparr>
           \<and> classes s' 0 = Team
           \<and> map_of (registries s' 0) ''TeamMember'' = Some 7)
   \<and> through_truthy (f_through members_through_field)
   \<and> (\<exists>self' s'. create_through_model example_state members_through_field = Inr (Some 5, self', s')
           \<and> f_through self' = Some (Model 5))"
proof -
  have h: "\<not> through_truthy (f_through members_field) \<and> f_owner members_field = Some 0
     \<and> f_to members_field = Model 1 \<and> f_registry members_field = Some 0"
    by (simp add: members_field_def through_truthy_def)
  from C10_returns_none_when_synthesized[where self = members_field and ow = 0 and m = 1
      and r = 0 and s = example_state, THEN conjunct1, rule_format, OF h]
  have x: "\<exists>s'. create_through_model example_state members_field =
               Inr (None, members_field\<lparr>f_through := Some (Model 7)\<rparr>, s')
           \<and> next_cls s' = 8
           \<and> classes s' 7 =
               create_edgy_model ''TeamMember''
                 [(''id'', IntegerField True),
                  (''team'', ForeignKey (Model 0) True CASCADE ''team_teammembers_set''),
                  (''member'', ForeignKey (Model 1) True CASCADE ''member_teammembers_set'')]
                 \<lparr>tablename = ''teams_members'', registry = Some 0, is_multi = True,
                  multi_related = [''member''], fields_mapping = [], foreign_key_fields = []\<rparr>
           \<and> classes s' 0 = Team
           \<and> map_of (registries s' 0) ''TeamMember'' = Some 7"
    by (simp add: Let_def ex_defs members_field_def lower_names map_of_dict_set)
  have t: "through_truthy (f_through members_through_field)"
    by (simp add: members_through_field_def through_truthy_def)
  obtain r1 self1 s1 where
    c: "create_through_model example_state members_through_field = Inr (r1, self1, s1)"
    and r1: "r1 = Some 5"
    by (simp add: create_through_model_def members_through_field_def through_truthy_def
        resolve_through_def name_of_def ex_defs Let_def)
  from C10_returns_none_when_synthesized[where self = members_through_field
      and s = example_state and ret = r1 and self' = self1 and s' = s1,
      THEN conjunct2, THEN conjunct2, THEN conjunct1] c t r1
  have y: "\<exists>self' s'. create_through_model example_state members_through_field = Inr (Some 5, self', s')
           \<and> f_through self' = Some (Model 5)"
    by auto
  from h x t y show ?thesis by blast
qed

end
